theory Spec2Isabelle
  imports Complex_Main "HOL-Library.Word"
begin

unbundle bit_operations_syntax

section \<open>Python values used by the driver\<close>

text \<open>
  The driver \<^verbatim>\<open>src/src/mcp960x.py\<close> is MicroPython. Its integers are unbounded and are
  modelled as \<^typ>\<open>int\<close> (\<open>AND\<close>, \<open>OR\<close>, \<open>push_bit\<close>, \<open>drop_bit\<close> on \<^typ>\<open>int\<close> are the
  two's-complement operations of Python's \<^verbatim>\<open>&\<close>, \<^verbatim>\<open>|\<close>, \<^verbatim>\<open><<\<close>, \<^verbatim>\<open>>>\<close>). The elements of a
  \<^verbatim>\<open>bytes\<close> or \<^verbatim>\<open>bytearray\<close> object are 8-bit words. Temperatures are Python floats; the
  driver multiplies and divides them by powers of two only (1.0, 0.25, 0.0625), which is
  exact on the register-sized values considered here, so they are modelled as rationals.
  An exception carries its message where the driver writes one; the messages of exceptions
  that the interpreter raises are abridged.
\<close>

type_synonym byte = "8 word"

datatype error =
    AssertionError
  | ValueError string
  | KeyError string
  | TypeError string

text \<open>\<^verbatim>\<open>bytes([...])\<close>: every element must lie in \<open>range(0, 256)\<close>, else \<^verbatim>\<open>ValueError\<close>.\<close>

definition bytes :: "int list \<Rightarrow> error + byte list" where
  "bytes xs =
     (if list_all (\<lambda>x. 0 \<le> x \<and> x < 256) xs then Inr (map word_of_int xs)
      else Inl (ValueError ''bytes value out of range''))"

text \<open>\<^verbatim>\<open>int(x)\<close> on a float truncates towards zero.\<close>

definition py_int :: "rat \<Rightarrow> int" where
  "py_int x = (if x < 0 then - \<lfloor>- x\<rfloor> else \<lfloor>x\<rfloor>)"

text \<open>\<^verbatim>\<open>str(n)\<close> on an integer: its decimal digits, with a leading minus sign below zero.\<close>

fun str_nat :: "nat \<Rightarrow> string" where
  "str_nat n =
     (if n < 10 then [char_of (48 + n)]
      else str_nat (n div 10) @ [char_of (48 + n mod 10)])"

declare str_nat.simps [simp del]

definition str_int :: "int \<Rightarrow> string" where
  "str_int i = (if i < 0 then CHR ''-'' # str_nat (nat (- i)) else str_nat (nat i))"

text \<open>\<^verbatim>\<open>s.upper()\<close> on the ASCII letters (the only ones the type table has).\<close>

definition upper_char :: "char \<Rightarrow> char" where
  "upper_char c =
     (let n = (of_char c :: nat) in if 97 \<le> n \<and> n \<le> 122 then char_of (n - 32) else c)"

definition upper :: "string \<Rightarrow> string" where
  "upper s = map upper_char s"

section \<open>The bus and the device behind it\<close>

text \<open>
  Modelled from the spec: the bus object \<^verbatim>\<open>i2c\<close> (\<^verbatim>\<open>writeto\<close>, \<^verbatim>\<open>readfrom_into\<close>) and the
  chip that answers on it are not part of the repository. Following the transport contract
  (spec 4.1) and the notes at the head of the driver, the device has a register pointer and
  a register file; a write of \<open>[register] + payload\<close> selects the register and stores the
  payload in it (a write of one byte only selects), and a read of \<open>n\<close> bytes streams the
  bytes of the selected register and of the registers that follow it. A register that
  holds no byte contributes none, and bytes the device does not deliver stay at the zero
  the \<^verbatim>\<open>bytearray\<close> was created with. The log records every bus transaction in order.
\<close>

datatype bus_event =
    Writeto int "byte list"
  | Readfrom int nat

record i2c_bus =
  pointer :: nat
  regs :: "nat \<Rightarrow> byte list"
  bus_log :: "bus_event list"

definition i2c_writeto :: "i2c_bus \<Rightarrow> int \<Rightarrow> byte list \<Rightarrow> i2c_bus" where
  "i2c_writeto bus addr bs =
     (case bs of
        [] \<Rightarrow> bus\<lparr>bus_log := bus_log bus @ [Writeto addr bs]\<rparr>
      | p # payload \<Rightarrow>
          bus\<lparr>pointer := unat p,
              regs := (if payload = [] then regs bus else (regs bus)(unat p := payload)),
              bus_log := bus_log bus @ [Writeto addr bs]\<rparr>)"

definition i2c_readfrom :: "i2c_bus \<Rightarrow> int \<Rightarrow> nat \<Rightarrow> byte list \<times> i2c_bus" where
  "i2c_readfrom bus addr n =
     (take n (concat (map (regs bus) [pointer bus ..< pointer bus + n]) @ replicate n 0),
      bus\<lparr>bus_log := bus_log bus @ [Readfrom addr n]\<rparr>)"

text \<open>The write transactions of the log are what the claims about bus writes count.\<close>

fun is_write :: "bus_event \<Rightarrow> bool" where
  "is_write (Writeto a bs) = True"
| "is_write (Readfrom a n) = False"

definition bus_writes :: "i2c_bus \<Rightarrow> bus_event list" where
  "bus_writes bus = filter is_write (bus_log bus)"

section \<open>The driver: class \<^verbatim>\<open>MCP960X\<close>\<close>

text \<open>
  The handle is the object's attributes. \<^verbatim>\<open>dev_id\<close> does not exist before the identity
  read of the constructor, hence the option. A method returns its result (or the exception
  it raises) together with the handle as the call leaves it; \<^verbatim>\<open>sleep_us\<close> and \<^verbatim>\<open>print\<close> have
  no effect on the handle or the bus and are left out.
\<close>

record handle =
  i2c :: i2c_bus
  address :: int
  t_stretch :: int
  adc_resolution :: int
  cold_junction_res :: rat
  dev_id :: "int option"

definition REG_HOT_JUNCTION :: int where "REG_HOT_JUNCTION = 0x00"
definition REG_DELTA_TEMP :: int where "REG_DELTA_TEMP = 0x01"
definition REG_COLD_JUNCTION :: int where "REG_COLD_JUNCTION = 0x02"
definition REG_RAW_ADC :: int where "REG_RAW_ADC = 0x03"
definition REG_STATUS :: int where "REG_STATUS = 0x04"
definition REG_THERMO_CONFIG :: int where "REG_THERMO_CONFIG = 0x05"
definition REG_DEVICE_CONFIG :: int where "REG_DEVICE_CONFIG = 0x06"
definition REG_ALERT_STATUS :: int where "REG_ALERT_STATUS = 0x07"
definition REG_ALERT_CONFIG :: int where "REG_ALERT_CONFIG = 0x08"
definition REG_ALERT_HYSTERESIS :: int where "REG_ALERT_HYSTERESIS = 0x0C"
definition REG_ALERT_LIMIT :: int where "REG_ALERT_LIMIT = 0x10"
definition REG_DEVICE_ID :: int where "REG_DEVICE_ID = 0x20"

definition ADC_RESOLUTIONS :: "int \<rightharpoonup> int" where
  "ADC_RESOLUTIONS = map_of [(12, 3), (14, 2), (16, 1), (18, 0)]"

definition COLD_JUNCTION_RES :: "rat \<rightharpoonup> int" where
  "COLD_JUNCTION_RES = map_of [(1 / 16, 0), (1 / 4, 1)]"

definition THERMOCOUPLE_TYPES :: "string \<rightharpoonup> int" where
  "THERMOCOUPLE_TYPES =
     map_of [(''K'', 0), (''J'', 1), (''T'', 2), (''N'', 3),
             (''S'', 4), (''E'', 5), (''B'', 6), (''R'', 7)]"

text \<open>\<^verbatim>\<open>self.i2c.writeto(self.address, bytes([...]))\<close>, the form of every write of the
  driver: the \<^verbatim>\<open>bytes\<close> object is built first, and nothing is sent when that raises.\<close>

definition writeto_bytes :: "handle \<Rightarrow> int list \<Rightarrow> (error + unit) \<times> handle" where
  "writeto_bytes h xs =
     (case bytes xs of
        Inl e \<Rightarrow> (Inl e, h)
      | Inr bs \<Rightarrow> (Inr (), h\<lparr>i2c := i2c_writeto (i2c h) (address h) bs\<rparr>))"

definition write_pointer :: "handle \<Rightarrow> int \<Rightarrow> (error + unit) \<times> handle" where
  "write_pointer h p = writeto_bytes h [p]"

definition read_bytes :: "handle \<Rightarrow> nat \<Rightarrow> byte list \<times> handle" where
  "read_bytes h n_bytes =
     (let (data, bus) = i2c_readfrom (i2c h) (address h) n_bytes
      in (data, h\<lparr>i2c := bus\<rparr>))"

definition get_device_id_and_revision :: "handle \<Rightarrow> (error + int \<times> int) \<times> handle" where
  "get_device_id_and_revision h =
     (case write_pointer h REG_DEVICE_ID of
        (Inl e, h1) \<Rightarrow> (Inl e, h1)
      | (Inr u, h1) \<Rightarrow>
          (let (data, h2) = read_bytes h1 2
           in (Inr (uint (data ! 0), uint (data ! 1)), h2)))"

definition set_thermocouple_type :: "handle \<Rightarrow> string \<Rightarrow> (error + unit) \<times> handle" where
  "set_thermocouple_type h type_char =
     (let (data, h1) = read_bytes h 1;
          config = uint (data ! 0) AND 0x8F
      in case THERMOCOUPLE_TYPES (upper type_char) of
           None \<Rightarrow> (Inl (KeyError (upper type_char)), h1)
         | Some code \<Rightarrow>
             writeto_bytes h1 [REG_THERMO_CONFIG, config OR push_bit 4 code])"

definition set_filter_coefficient :: "handle \<Rightarrow> int \<Rightarrow> (error + unit) \<times> handle" where
  "set_filter_coefficient h n =
     (let (data, h1) = read_bytes h 1;
          config = uint (data ! 0) AND 0xF8;
          config = config OR min n 7
      in writeto_bytes h1 [REG_THERMO_CONFIG, config])"

record temperature_reading =
  T_H :: rat
  T_delta :: rat
  T_C :: rat

text \<open>The body of the loop of \<^verbatim>\<open>read_temperatures\<close> for the register pair at index \<open>i\<close>.\<close>

definition temp_at :: "byte list \<Rightarrow> rat \<Rightarrow> rat \<Rightarrow> nat \<Rightarrow> rat" where
  "temp_at data adc_lsb cold_lsb i =
     (let val = push_bit 8 (uint (data ! i)) OR uint (data ! (i + 1));
          val = (if val AND 0x8000 \<noteq> 0 then val - 65536 else val);
          lsb = (if i = 4 then cold_lsb else adc_lsb)
      in of_int val * lsb)"

definition read_temperatures :: "handle \<Rightarrow> (error + temperature_reading) \<times> handle" where
  "read_temperatures h =
     (let adc_lsb =
            (case map_of [(12, 1), (14, 1 / 4), (16, 1 / 16), (18, 1 / 16)] (adc_resolution h) of
               Some l \<Rightarrow> l
             | None \<Rightarrow> 1 / 16);
          cold_lsb = cold_junction_res h
      in case write_pointer h REG_HOT_JUNCTION of
           (Inl e, h1) \<Rightarrow> (Inl e, h1)
         | (Inr u, h1) \<Rightarrow>
             (let (data, h2) = read_bytes h1 6;
                  temps = map (temp_at data adc_lsb cold_lsb) [0, 2, 4]
              in (Inr \<lparr>T_H = temps ! 0, T_delta = temps ! 1, T_C = temps ! 2\<rparr>, h2)))"

definition set_resolution :: "handle \<Rightarrow> int \<Rightarrow> rat \<Rightarrow> (error + unit) \<times> handle" where
  "set_resolution h adc_bits cold_res =
     (let adc_bits = (if ADC_RESOLUTIONS adc_bits = None then 18 else adc_bits);
          h1 = h\<lparr>adc_resolution := adc_bits\<rparr>;
          cold_res = (if COLD_JUNCTION_RES cold_res = None then 1 / 16 else cold_res);
          h2 = h1\<lparr>cold_junction_res := cold_res\<rparr>
      in case ADC_RESOLUTIONS adc_bits of
           None \<Rightarrow> (Inl (KeyError (str_int adc_bits)), h2)
         | Some a \<Rightarrow>
             (case COLD_JUNCTION_RES cold_res of
                None \<Rightarrow> (Inl (KeyError ''cold_junction_res''), h2)
              | Some c \<Rightarrow>
                  (let config = 0;
                       config = config OR push_bit 5 a;
                       config = config OR push_bit 7 c
                   in writeto_bytes h2 [REG_DEVICE_CONFIG, config])))"

definition set_power_mode :: "handle \<Rightarrow> string \<Rightarrow> (error + unit) \<times> handle" where
  "set_power_mode h mode =
     (let (data, h1) = read_bytes h 1;
          config = uint (data ! 0) AND 0xFC;
          config = (if mode = ''shutdown'' then config OR 1
                    else if mode = ''burst'' then config OR 2
                    else config)
      in writeto_bytes h1 [REG_DEVICE_CONFIG, config])"

record alert_registers =
  configs :: "byte list"
  limits :: "rat list"
  hysteresis :: "byte list"

text \<open>The body of the loop of \<^verbatim>\<open>read_all_alerts\<close> for the limit word at index \<open>i\<close>.\<close>

definition limit_at :: "byte list \<Rightarrow> nat \<Rightarrow> rat" where
  "limit_at limits_data i =
     (let val = push_bit 8 (uint (limits_data ! i)) OR uint (limits_data ! (i + 1));
          val = (if val AND 0x8000 \<noteq> 0 then val - 65536 else val)
      in of_int val * (1 / 16))"

definition read_all_alerts :: "handle \<Rightarrow> (error + alert_registers) \<times> handle" where
  "read_all_alerts h =
     (case write_pointer h REG_ALERT_CONFIG of
        (Inl e, h1) \<Rightarrow> (Inl e, h1)
      | (Inr u, h1) \<Rightarrow>
          (let (cfgs, h2) = read_bytes h1 4
           in case write_pointer h2 REG_ALERT_LIMIT of
                (Inl e, h3) \<Rightarrow> (Inl e, h3)
              | (Inr u, h3) \<Rightarrow>
                  (let (limits_data, h4) = read_bytes h3 8;
                       lims = map (limit_at limits_data) [0, 2, 4, 6]
                   in case write_pointer h4 REG_ALERT_HYSTERESIS of
                        (Inl e, h5) \<Rightarrow> (Inl e, h5)
                      | (Inr u, h5) \<Rightarrow>
                          (let (hyst, h6) = read_bytes h5 4
                           in (Inr \<lparr>configs = cfgs, limits = lims, hysteresis = hyst\<rparr>, h6)))))"

text \<open>The limit word of \<^verbatim>\<open>set_alert\<close> (the two statements under "calculate limit value").\<close>

definition limit_val_of :: "rat \<Rightarrow> int" where
  "limit_val_of limit =
     (let limit_val = py_int (\<bar>limit\<bar> / (1 / 16))
      in if limit < 0 then limit_val OR 0x8000 else limit_val)"

text \<open>The configuration byte of \<^verbatim>\<open>set_alert\<close>, built flag by flag.\<close>

definition alert_config_of :: "bool \<Rightarrow> string \<Rightarrow> bool \<Rightarrow> bool \<Rightarrow> string \<Rightarrow> bool \<Rightarrow> int" where
  "alert_config_of enable monitor rising active_low mode clear_interrupt =
     (let config = 0;
          config = (if enable then config OR 0x01 else config);
          config = (if mode = ''interrupt'' then config OR 0x02 else config);
          config = (if \<not> active_low then config OR 0x04 else config);
          config = (if \<not> rising then config OR 0x08 else config);
          config = (if monitor = ''TC'' then config OR 0x10 else config);
          config = (if clear_interrupt then config OR 0x80 else config)
      in config)"

definition set_alert ::
  "handle \<Rightarrow> int \<Rightarrow> bool \<Rightarrow> rat \<Rightarrow> int \<Rightarrow> string \<Rightarrow> bool \<Rightarrow> bool \<Rightarrow> string \<Rightarrow> bool
     \<Rightarrow> (error + unit) \<times> handle" where
  "set_alert h alert_num enable limit hyst monitor rising active_low mode clear_interrupt =
     (if \<not> (1 \<le> alert_num \<and> alert_num \<le> 4) then (Inl AssertionError, h)
      else
        (let limit_val = limit_val_of limit
         in case writeto_bytes h
                   [REG_ALERT_LIMIT + (alert_num - 1),
                    drop_bit 8 limit_val AND 0xFF,
                    limit_val AND 0xFF] of
              (Inl e, h1) \<Rightarrow> (Inl e, h1)
            | (Inr u, h1) \<Rightarrow>
                (case writeto_bytes h1
                        [REG_ALERT_HYSTERESIS + (alert_num - 1), min hyst 255] of
                   (Inl e, h2) \<Rightarrow> (Inl e, h2)
                 | (Inr u, h2) \<Rightarrow>
                     writeto_bytes h2
                       [REG_ALERT_CONFIG + (alert_num - 1),
                        alert_config_of enable monitor rising active_low mode
                          clear_interrupt])))"

record status_snapshot =
  burst_complete :: bool
  temp_updated :: bool
  short_circuit :: bool
  input_range_error :: bool
  alerts :: "bool list"

text \<open>\<^verbatim>\<open>bool(status & (1 << i))\<close>.\<close>

definition status_bit :: "int \<Rightarrow> nat \<Rightarrow> bool" where
  "status_bit status i = (status AND push_bit i 1 \<noteq> 0)"

definition get_status :: "handle \<Rightarrow> (error + status_snapshot) \<times> handle" where
  "get_status h =
     (case write_pointer h REG_STATUS of
        (Inl e, h1) \<Rightarrow> (Inl e, h1)
      | (Inr u, h1) \<Rightarrow>
          (let (data, h2) = read_bytes h1 1;
               status = uint (data ! 0);
               sc = (if dev_id h2 = Some 0x40 then False else status_bit status 5)
           in (Inr \<lparr>burst_complete = status_bit status 7,
                     temp_updated = status_bit status 6,
                     short_circuit = sc,
                     input_range_error = status_bit status 4,
                     alerts = map (status_bit status) [0, 1, 2, 3]\<rparr>, h2)))"

text \<open>
  The argument of \<^verbatim>\<open>get_alerts\<close>: \<^verbatim>\<open>None\<close>, an \<^verbatim>\<open>int\<close>, or a list (or range) of ints.
\<close>

datatype selector =
    SelNone
  | SelInt int
  | SelList "int list"

text \<open>The loop \<^verbatim>\<open>for alert_num in alerts\<close>, filling the dictionary \<^verbatim>\<open>result\<close>.\<close>

fun alerts_loop :: "int \<Rightarrow> int list \<Rightarrow> (string \<rightharpoonup> bool) \<Rightarrow> error + (string \<rightharpoonup> bool)" where
  "alerts_loop status [] result = Inr result"
| "alerts_loop status (alert_num # rest) result =
     (if \<not> (1 \<le> alert_num \<and> alert_num \<le> 4)
      then Inl (ValueError (''Alert number must be 1-4, got '' @ str_int alert_num))
      else alerts_loop status rest
             (result(str_int alert_num \<mapsto> status_bit status (nat (alert_num - 1)))))"

text \<open>
  For an \<^verbatim>\<open>int\<close> the source rebinds \<^verbatim>\<open>alerts = (alerts)\<close>, which is the integer itself
  (a parenthesised expression, not a one-element tuple), so the \<^verbatim>\<open>for\<close> statement raises
  \<^verbatim>\<open>TypeError\<close>: an \<^verbatim>\<open>int\<close> is not iterable.
\<close>

definition get_alerts :: "handle \<Rightarrow> selector \<Rightarrow> (error + (string \<rightharpoonup> bool)) \<times> handle" where
  "get_alerts h sel =
     (case write_pointer h REG_STATUS of
        (Inl e, h1) \<Rightarrow> (Inl e, h1)
      | (Inr u, h1) \<Rightarrow>
          (let (data, h2) = read_bytes h1 1;
               status = uint (data ! 0)
           in case sel of
                SelNone \<Rightarrow> (alerts_loop status [1, 2, 3, 4] Map.empty, h2)
              | SelInt a \<Rightarrow> (Inl (TypeError ''int object is not iterable''), h2)
              | SelList xs \<Rightarrow> (alerts_loop status xs Map.empty, h2)))"

text \<open>
  The constructor. It stores its two resolution arguments, reads the identity, and then
  calls \<^verbatim>\<open>set_thermocouple_type\<close>, \<^verbatim>\<open>set_filter_coefficient\<close> and \<^verbatim>\<open>set_resolution()\<close>, the
  last one with no argument, that is with the defaults 18 and 0.0625.
\<close>

definition init ::
  "i2c_bus \<Rightarrow> int \<Rightarrow> string \<Rightarrow> int \<Rightarrow> rat \<Rightarrow> int \<Rightarrow> (error + unit) \<times> handle" where
  "init bus addr tctype tcfilter cold_res adc_res =
     (let h = \<lparr>i2c = bus, address = addr, t_stretch = 60, adc_resolution = adc_res,
               cold_junction_res = cold_res, dev_id = None\<rparr>
      in case get_device_id_and_revision h of
           (Inl e, h1) \<Rightarrow> (Inl e, h1)
         | (Inr (d, revision), h1) \<Rightarrow>
             (let h2 = h1\<lparr>dev_id := Some d\<rparr>
              in case set_thermocouple_type h2 tctype of
                   (Inl e, h3) \<Rightarrow> (Inl e, h3)
                 | (Inr u, h3) \<Rightarrow>
                     (case set_filter_coefficient h3 tcfilter of
                        (Inl e, h4) \<Rightarrow> (Inl e, h4)
                      | (Inr u, h4) \<Rightarrow> set_resolution h4 18 (1 / 16))))"

section \<open>Reference notions and sample states\<close>

text \<open>
  The device-config byte that \<^verbatim>\<open>set_resolution\<close> builds, in closed form, for a validated
  pair of resolutions: bits 5-6 from the ADC table, bit 7 from the cold-junction table.
\<close>

definition resolution_config :: "int \<Rightarrow> rat \<Rightarrow> int" where
  "resolution_config a c =
     (if a = 12 then 96 else if a = 14 then 64 else if a = 16 then 32 else 0)
     + (if c = 1 / 4 then 128 else 0)"

text \<open>
  A sample device: the register pointer rests on the identity register (the register the
  constructor selects for its identity read), the hot junction reads 0x0140, the delta 0xFF38, the
  status byte has alerts 2 and 4 raised, the filter field is 7 and the device is in
  shutdown mode. The sample handle talks to it at address 0x67.
\<close>

definition dev0 :: i2c_bus where
  "dev0 =
     \<lparr>pointer = 0x20,
      regs = (\<lambda>r. [0])(0 := [0x01, 0x40], 1 := [0xFF, 0x38], 2 := [0x01, 0x90],
                        4 := [0x0A], 5 := [0x07], 6 := [0x01], 0x20 := [0x40, 0x12]),
      bus_log = []\<rparr>"

definition h0 :: handle where
  "h0 = \<lparr>i2c = dev0, address = 0x67, t_stretch = 60, adc_resolution = 18,
          cold_junction_res = 1 / 16, dev_id = Some 0x40\<rparr>"

text \<open>The same handle with the register pointer on the device-config register.\<close>

definition h_cfg :: handle where
  "h_cfg = h0\<lparr>i2c := dev0\<lparr>pointer := 6\<rparr>\<rparr>"

text \<open>The same handle on a device whose hot-junction register holds 0xFF38.\<close>

definition h_neg :: handle where
  "h_neg = h0\<lparr>i2c := dev0\<lparr>regs := (regs dev0)(0 := [0xFF, 0x38])\<rparr>\<rparr>"

text \<open>
  The reading of a register pair that the specification asks for: the two bytes, high byte
  first, as one 16-bit word, read as a two's-complement integer.
\<close>

definition s16 :: "byte \<Rightarrow> byte \<Rightarrow> int" where
  "s16 hi lo = sint (word_cat hi lo :: 16 word)"

text \<open>The step of the hot-junction and delta registers for an ADC resolution, as the
  specification tabulates it: 12 bits give 1.0, 14 bits 0.25, 16 and 18 bits 0.0625.\<close>

definition adc_step :: "int \<Rightarrow> rat" where
  "adc_step a = (if a = 12 then 1 else if a = 14 then 1 / 4 else 1 / 16)"

text \<open>
  The device-config byte most recently written to hardware: the payload of the last
  write of the log that addresses register 0x06 with one byte.
\<close>

fun config_payload :: "bus_event \<Rightarrow> byte option" where
  "config_payload (Writeto a [r, c]) = (if r = 6 then Some c else None)"
| "config_payload e = None"

definition last_config_write :: "bus_event list \<Rightarrow> byte option" where
  "last_config_write evs =
     (case rev (List.map_filter config_payload evs) of [] \<Rightarrow> None | c # cs \<Rightarrow> Some c)"

text \<open>
  The resolutions a device-config byte encodes, by the register map: bits 5-6 select the
  ADC resolution (the driver's table, read backwards), bit 7 the cold-junction resolution.
\<close>

definition adc_bits_of_config :: "byte \<Rightarrow> int" where
  "adc_bits_of_config cfg =
     (let f = drop_bit 5 cfg AND 3
      in if f = 3 then 12 else if f = 2 then 14 else if f = 1 then 16 else 18)"

definition cold_res_of_config :: "byte \<Rightarrow> rat" where
  "cold_res_of_config cfg = (if bit cfg 7 then 1 / 4 else 1 / 16)"

text \<open>The cached resolution fields of a handle agree with the device-config byte most
  recently written.\<close>

definition resolution_in_sync :: "handle \<Rightarrow> bool" where
  "resolution_in_sync h =
     (case last_config_write (bus_log (i2c h)) of
        None \<Rightarrow> False
      | Some cfg \<Rightarrow>
          adc_resolution h = adc_bits_of_config cfg
          \<and> cold_junction_res h = cold_res_of_config cfg)"

text \<open>Two handles have the same cached resolution fields.\<close>

definition same_resolution :: "handle \<Rightarrow> handle \<Rightarrow> bool" where
  "same_resolution h h' =
     (adc_resolution h' = adc_resolution h \<and> cold_junction_res h' = cold_junction_res h)"

text \<open>
  A session on the device whose hot-junction register holds 0xFF38: the handle as the
  constructor leaves it, then after \<^verbatim>\<open>read_temperatures()\<close>, then after
  \<^verbatim>\<open>set_power_mode('shutdown')\<close>.
\<close>

definition h_built :: handle where
  "h_built = snd (init (i2c h_neg) 0x67 ''K'' 0 (1 / 16) 18)"

definition h_read :: handle where
  "h_read = snd (read_temperatures h_built)"

definition h_shut :: handle where
  "h_shut = snd (set_power_mode h_read ''shutdown'')"

section \<open>Basic facts about the transport\<close>

lemmas REG_defs =
  REG_HOT_JUNCTION_def REG_DELTA_TEMP_def REG_COLD_JUNCTION_def REG_RAW_ADC_def
  REG_STATUS_def REG_THERMO_CONFIG_def REG_DEVICE_CONFIG_def REG_ALERT_STATUS_def
  REG_ALERT_CONFIG_def REG_ALERT_HYSTERESIS_def REG_ALERT_LIMIT_def REG_DEVICE_ID_def

lemma h0_fields:
  "i2c h0 = dev0" "address h0 = 0x67" "adc_resolution h0 = 18"
  "cold_junction_res h0 = 1 / 16" "dev_id h0 = Some 0x40"
  by (simp_all add: h0_def)

lemma bytes_in_range:
  "list_all (\<lambda>x. 0 \<le> x \<and> x < 256) xs \<Longrightarrow> bytes xs = Inr (map word_of_int xs)"
  by (simp add: bytes_def)

lemma length_i2c_readfrom [simp]: "length (fst (i2c_readfrom bus addr n)) = n"
  by (simp add: i2c_readfrom_def)

lemma regs_writeto:
  "regs (i2c_writeto bus addr [r, w]) k = (if k = unat r then [w] else regs bus k)"
  by (simp add: i2c_writeto_def)

lemma regs_write_pointer [simp]: "regs (i2c_writeto bus addr [r]) = regs bus"
  by (simp add: i2c_writeto_def)

lemma pointer_writeto [simp]: "pointer (i2c_writeto bus addr (r # payload)) = unat r"
  by (simp add: i2c_writeto_def)

lemma bus_log_writeto [simp]:
  "bus_log (i2c_writeto bus addr bs) = bus_log bus @ [Writeto addr bs]"
  by (simp add: i2c_writeto_def split: list.splits)

lemma bus_log_readfrom [simp]:
  "bus_log (snd (i2c_readfrom bus addr n)) = bus_log bus @ [Readfrom addr n]"
  by (simp add: i2c_readfrom_def)

lemma regs_readfrom [simp]: "regs (snd (i2c_readfrom bus addr n)) = regs bus"
  by (simp add: i2c_readfrom_def)

lemma pointer_readfrom [simp]: "pointer (snd (i2c_readfrom bus addr n)) = pointer bus"
  by (simp add: i2c_readfrom_def)

lemma read_selected_byte:
  "regs bus (pointer bus) = [b] \<Longrightarrow> fst (i2c_readfrom bus addr 1) = [b]"
  by (simp add: i2c_readfrom_def)

text \<open>A byte that was read, masked and combined with a byte-sized field is a byte again,
  so the \<^verbatim>\<open>bytes\<close> object of a read-modify-write is always built.\<close>

lemma uint_and_or_range:
  fixes b :: byte
  assumes "0 \<le> k" "k < 256"
  shows "0 \<le> uint b AND m OR k \<and> uint b AND m OR k < 256"
proof -
  have "uint b AND m \<le> uint b" by (simp add: AND_upper1)
  moreover have "uint b < 2 ^ 8" using uint_bounded[of b] by simp
  ultimately have "uint b AND m < 2 ^ 8" by simp
  moreover have "0 \<le> uint b AND m" by simp
  moreover have "k < 2 ^ 8" using assms by simp
  ultimately have "uint b AND m OR k < 2 ^ 8" using assms(1)
    by (intro OR_upper) simp_all
  moreover have "0 \<le> uint b AND m OR k" using assms(1) by simp
  ultimately show ?thesis by simp
qed

lemma word_of_int_and_or:
  fixes b :: byte
  shows "(word_of_int (uint b AND m OR k) :: byte) = (b AND word_of_int m) OR word_of_int k"
  by (simp add: word_wi_log_defs [symmetric])

lemma bytes_reg_and_or:
  fixes b :: byte
  assumes "0 \<le> r" "r < 256" "0 \<le> k" "k < 256"
  shows "bytes [r, uint b AND m OR k]
           = Inr [word_of_int r, (b AND word_of_int m) OR word_of_int k]"
  using assms uint_and_or_range[OF assms(3,4), of b m]
  by (simp add: bytes_def word_of_int_and_or)

lemma bytes_reg_and:
  fixes b :: byte
  assumes "0 \<le> r" "r < 256"
  shows "bytes [r, uint b AND m] = Inr [word_of_int r, b AND word_of_int m]"
  using bytes_reg_and_or[OF assms, of 0 b m] by simp

section \<open>Resolution configuration\<close>

text \<open>\<^verbatim>\<open>set_resolution\<close> never fails: it validates both arguments, caches them and sends
  one write of the register address 0x06 and the configuration byte.\<close>

lemma set_resolution_eq:
  "set_resolution h a c =
     (let a' = (if a \<in> {12, 14, 16, 18} then a else 18);
          c' = (if c \<in> {1 / 16, 1 / 4} then c else 1 / 16)
      in (Inr (),
          h\<lparr>adc_resolution := a', cold_junction_res := c',
            i2c := i2c_writeto (i2c h) (address h)
                     [6, word_of_int (resolution_config a' c')]\<rparr>))"
  by (auto simp add: set_resolution_def ADC_RESOLUTIONS_def COLD_JUNCTION_RES_def Let_def
        writeto_bytes_def bytes_def REG_defs resolution_config_def)

lemma resolution_config_low: "(word_of_int (resolution_config a c) :: byte) AND 3 = 0"
  by (simp add: resolution_config_def)

text \<open>The byte it writes is the most recent device-config byte of the log, and it decodes
  to the pair that was cached.\<close>

lemma last_config_write_snoc [simp]:
  "last_config_write (evs @ [Writeto a [6, c]]) = Some c"
  by (simp add: last_config_write_def map_filter_def)

lemma resolution_config_decodes:
  assumes "a \<in> {12, 14, 16, 18}" "c \<in> {1 / 16, 1 / 4}"
  shows "adc_bits_of_config (word_of_int (resolution_config a c)) = a"
    and "cold_res_of_config (word_of_int (resolution_config a c)) = c"
  using assms
  by (auto simp add: adc_bits_of_config_def cold_res_of_config_def resolution_config_def
        Let_def)

lemma set_resolution_in_sync: "resolution_in_sync (snd (set_resolution h a c))"
  by (simp add: set_resolution_eq Let_def resolution_in_sync_def resolution_config_decodes)

lemma set_resolution_cached:
  "adc_resolution (snd (set_resolution h a c)) = (if a \<in> {12, 14, 16, 18} then a else 18)"
  "cold_junction_res (snd (set_resolution h a c))
     = (if c \<in> {1 / 16, 1 / 4} then c else 1 / 16)"
  by (simp_all add: set_resolution_eq Let_def)

section \<open>Power mode\<close>

text \<open>\<^verbatim>\<open>set_power_mode\<close> reads one byte at the register the pointer currently selects (it
  sends no pointer selection of its own), clears bits 0-1 of it, sets the bits of the mode
  and writes the result to register 0x06.\<close>

lemma set_power_mode_eq:
  "set_power_mode h mode =
     (let b = fst (i2c_readfrom (i2c h) (address h) 1) ! 0;
          w = (b AND 0xFC) OR
              (if mode = ''shutdown'' then 1 else if mode = ''burst'' then 2 else 0)
      in (Inr (),
          h\<lparr>i2c := i2c_writeto (snd (i2c_readfrom (i2c h) (address h) 1)) (address h)
                     [6, w]\<rparr>))"
  by (simp add: set_power_mode_def read_bytes_def Let_def split_beta writeto_bytes_def
        REG_defs bytes_reg_and_or bytes_reg_and)

lemma power_bits_of_or: "((b AND 0xFC) OR k :: byte) AND 3 = k AND 3"
  by (simp add: bit.conj_disj_distrib2 and.assoc)

text \<open>
  Claim C5, as the code has it. A mode other than \<^verbatim>\<open>'shutdown'\<close> and \<^verbatim>\<open>'burst'\<close> (so
  \<^verbatim>\<open>'normal'\<close> and every unrecognised value alike) takes neither branch of the
  \<^verbatim>\<open>if\<close>/\<^verbatim>\<open>elif\<close>, and the byte written to register 0x06 keeps the 00 that the mask
  \<^verbatim>\<open>0b11111100\<close> left in bits 0-1: the power-mode bits are cleared, which selects normal
  mode.
\<close>

theorem set_power_mode_unrecognised_clears:
  "mode \<noteq> ''shutdown'' \<Longrightarrow> mode \<noteq> ''burst'' \<Longrightarrow>
   fst (set_power_mode h mode) = Inr ()
   \<and> (\<exists>w. regs (i2c (snd (set_power_mode h mode))) 6 = [w] \<and> w AND 3 = 0)"
  by (simp add: set_power_mode_eq Let_def regs_writeto and.assoc)

theorem set_power_mode_unrecognised_clears_witness:
  "''sleep'' \<noteq> ''shutdown'' \<and> ''sleep'' \<noteq> ''burst''
   \<and> fst (set_power_mode h_cfg ''sleep'') = Inr ()
   \<and> (\<exists>w. regs (i2c (snd (set_power_mode h_cfg ''sleep''))) 6 = [w] \<and> w AND 3 = 0)"
  using set_power_mode_unrecognised_clears [of "''sleep''" h_cfg] by simp

text \<open>
  The claim as stated fails: on a device in shutdown mode (register 0x06 holds 0x01) whose
  pointer selects register 0x06, the unrecognised mode \<^verbatim>\<open>'sleep'\<close> writes 0x00, so bits 0-1
  change from 01 to 00.
\<close>

theorem set_power_mode_unrecognised_counterexample:
  "regs (i2c h_cfg) 6 = [1]
   \<and> regs (i2c (snd (set_power_mode h_cfg ''sleep''))) 6 = [0]"
  by (simp add: set_power_mode_eq Let_def regs_writeto h_cfg_def h0_def dev0_def
        i2c_readfrom_def)

text \<open>
  Claim C10. Every call of \<^verbatim>\<open>set_resolution\<close>, whatever its arguments, succeeds and sends
  one write of register 0x06 whose byte has bits 0-1 equal to 00, the code of normal mode.
  Hence a device that \<^verbatim>\<open>set_power_mode\<close> has just put into shutdown mode (bits 01) or burst
  mode (bits 10) is back in normal mode after any following \<^verbatim>\<open>set_resolution\<close>.
\<close>

theorem set_resolution_resets_power_mode:
  "(\<exists>cfg h'. set_resolution h adc_bits cold_res = (Inr (), h')
      \<and> bus_log (i2c h') = bus_log (i2c h) @ [Writeto (address h) [6, cfg]]
      \<and> regs (i2c h') 6 = [cfg] \<and> cfg AND 3 = 0)
   \<and> (\<exists>w cfg h1 h2. set_power_mode h ''shutdown'' = (Inr (), h1)
      \<and> regs (i2c h1) 6 = [w] \<and> w AND 3 = 1
      \<and> set_resolution h1 adc_bits cold_res = (Inr (), h2)
      \<and> regs (i2c h2) 6 = [cfg] \<and> cfg AND 3 = 0)
   \<and> (\<exists>w cfg h1 h2. set_power_mode h ''burst'' = (Inr (), h1)
      \<and> regs (i2c h1) 6 = [w] \<and> w AND 3 = 2
      \<and> set_resolution h1 adc_bits cold_res = (Inr (), h2)
      \<and> regs (i2c h2) 6 = [cfg] \<and> cfg AND 3 = 0)"
proof (intro conjI)
  show "\<exists>cfg h'. set_resolution h adc_bits cold_res = (Inr (), h')
      \<and> bus_log (i2c h') = bus_log (i2c h) @ [Writeto (address h) [6, cfg]]
      \<and> regs (i2c h') 6 = [cfg] \<and> cfg AND 3 = 0"
    by (simp add: set_resolution_eq Let_def regs_writeto resolution_config_low)
next
  show "\<exists>w cfg h1 h2. set_power_mode h ''shutdown'' = (Inr (), h1)
      \<and> regs (i2c h1) 6 = [w] \<and> w AND 3 = 1
      \<and> set_resolution h1 adc_bits cold_res = (Inr (), h2)
      \<and> regs (i2c h2) 6 = [cfg] \<and> cfg AND 3 = 0"
    by (simp add: set_power_mode_eq set_resolution_eq Let_def regs_writeto
          resolution_config_low power_bits_of_or)
next
  show "\<exists>w cfg h1 h2. set_power_mode h ''burst'' = (Inr (), h1)
      \<and> regs (i2c h1) 6 = [w] \<and> w AND 3 = 2
      \<and> set_resolution h1 adc_bits cold_res = (Inr (), h2)
      \<and> regs (i2c h2) 6 = [cfg] \<and> cfg AND 3 = 0"
    by (simp add: set_power_mode_eq set_resolution_eq Let_def regs_writeto
          resolution_config_low power_bits_of_or)
qed

section \<open>Thermocouple configuration\<close>

lemma thermocouple_code_range:
  "THERMOCOUPLE_TYPES s = Some code \<Longrightarrow> code \<in> {0, 1, 2, 3, 4, 5, 6, 7}"
  by (auto simp add: THERMOCOUPLE_TYPES_def split: if_splits)

text \<open>For a type of the table, \<^verbatim>\<open>set_thermocouple_type\<close> reads one byte at the register
  the pointer currently selects, replaces bits 4-6 of that byte by the type code and
  writes the result to register 0x05.\<close>

lemma set_thermocouple_type_eq:
  assumes "THERMOCOUPLE_TYPES (upper type_char) = Some code"
  shows "set_thermocouple_type h type_char =
     (let b = fst (i2c_readfrom (i2c h) (address h) 1) ! 0
      in (Inr (),
          h\<lparr>i2c := i2c_writeto (snd (i2c_readfrom (i2c h) (address h) 1)) (address h)
                     [5, (b AND 0x8F) OR word_of_int (push_bit 4 code)]\<rparr>))"
proof -
  have "0 \<le> push_bit 4 code \<and> push_bit 4 code < 256"
    using thermocouple_code_range[OF assms] by auto
  then show ?thesis using assms
    by (simp add: set_thermocouple_type_def read_bytes_def Let_def split_beta
          writeto_bytes_def REG_defs bytes_reg_and_or)
qed

text \<open>When the pointer happens to select register 0x05, this is the read-modify-write of
  that register.\<close>

lemma set_thermocouple_type_selected:
  assumes "THERMOCOUPLE_TYPES (upper type_char) = Some code"
    and "pointer (i2c h) = 5" and "regs (i2c h) 5 = [b]"
  shows "regs (i2c (snd (set_thermocouple_type h type_char))) 5
           = [(b AND 0x8F) OR word_of_int (push_bit 4 code)]"
proof -
  have "fst (i2c_readfrom (i2c h) (address h) 1) = [b]"
    using assms(2,3) by (intro read_selected_byte) simp
  then show ?thesis
    by (simp add: set_thermocouple_type_eq[OF assms(1)] Let_def regs_writeto)
qed

text \<open>
  Claim C3, evaluated on the code. \<^verbatim>\<open>set_thermocouple_type\<close> calls \<^verbatim>\<open>_read_bytes(1)\<close> without
  selecting register 0x05 first (every reading method of the driver calls \<^verbatim>\<open>_write_pointer\<close>
  before \<^verbatim>\<open>_read_bytes\<close>; this one does not). On the sample device the pointer rests on the
  identity register, whose first byte is 0x40, and register 0x05 holds 0x07. Setting type
  J writes \<open>(0x40 AND 0x8F) OR 0x10 = 0x10\<close>: the filter field in bits 0-2 goes from 7 to 0,
  where the read-modify-write of the claim would store 0x17.
\<close>

theorem set_thermocouple_type_unselected_read:
  "regs (i2c h0) 5 = [0x07]
   \<and> fst (set_thermocouple_type h0 ''J'') = Inr ()
   \<and> regs (i2c (snd (set_thermocouple_type h0 ''J''))) 5 = [0x10]"
  by (simp add: set_thermocouple_type_eq[where code = 1] THERMOCOUPLE_TYPES_def upper_def
        upper_char_def Let_def regs_writeto h0_def dev0_def i2c_readfrom_def)

lemma set_filter_coefficient_eq:
  assumes "0 \<le> n"
  shows "set_filter_coefficient h n =
     (let b = fst (i2c_readfrom (i2c h) (address h) 1) ! 0
      in (Inr (),
          h\<lparr>i2c := i2c_writeto (snd (i2c_readfrom (i2c h) (address h) 1)) (address h)
                     [5, (b AND 0xF8) OR word_of_int (min n 7)]\<rparr>))"
proof -
  have "0 \<le> min n 7 \<and> min n 7 < 256" using assms by simp
  then show ?thesis
    by (simp add: set_filter_coefficient_def read_bytes_def Let_def split_beta
          writeto_bytes_def REG_defs bytes_reg_and_or)
qed

text \<open>Below zero \<^verbatim>\<open>min(n, 7)\<close> is \<open>n\<close> itself, the byte to send is negative and \<^verbatim>\<open>bytes\<close>
  raises: the register was read, nothing is written.\<close>

lemma set_filter_coefficient_neg:
  assumes "n < 0"
  shows "set_filter_coefficient h n =
     (Inl (ValueError ''bytes value out of range''),
      h\<lparr>i2c := snd (i2c_readfrom (i2c h) (address h) 1)\<rparr>)"
proof -
  have m: "min n 7 = n" using assms by simp
  have "uint (fst (i2c_readfrom (i2c h) (address h) 1) ! 0) AND 0xF8 OR n < 0"
    using assms by (simp only: or_negative_int_iff) simp
  then have "\<not> 0 \<le> uint (fst (i2c_readfrom (i2c h) (address h) 1) ! 0) AND 0xF8 OR n"
    by simp
  then show ?thesis
    by (simp add: set_filter_coefficient_def read_bytes_def Let_def split_beta
          writeto_bytes_def REG_defs bytes_def m)
qed

lemma filter_field_of_or:
  assumes "0 \<le> k" "k \<le> 7"
  shows "uint (((b AND 0xF8) OR word_of_int k :: byte) AND 7) = k"
proof -
  have "k \<in> {0, 1, 2, 3, 4, 5, 6, 7}" using assms by auto
  then show ?thesis
    by (auto simp add: bit.conj_disj_distrib2 and.assoc)
qed

text \<open>
  Claim C7, as the code has it. For every integer \<open>n \<ge> 0\<close>, \<^verbatim>\<open>set_filter_coefficient\<close>
  succeeds and the byte it stores in register 0x05 has \<open>min n 7\<close> in bits 0-2: values above
  7 are stored as 7 without an error.
\<close>

theorem set_filter_coefficient_clamps_above:
  "0 \<le> n \<Longrightarrow>
   fst (set_filter_coefficient h n) = Inr ()
   \<and> (\<exists>w. regs (i2c (snd (set_filter_coefficient h n))) 5 = [w]
          \<and> uint (w AND 7) = min n 7)"
  by (simp add: set_filter_coefficient_eq Let_def regs_writeto filter_field_of_or)

theorem set_filter_coefficient_clamps_above_witness:
  "(0::int) \<le> 9 \<and> fst (set_filter_coefficient h0 9) = Inr ()
   \<and> (\<exists>w. regs (i2c (snd (set_filter_coefficient h0 9))) 5 = [w] \<and> uint (w AND 7) = 7)"
  using set_filter_coefficient_clamps_above [of 9 h0] by simp

text \<open>
  The claim as stated, for every integer, fails below zero: there is no lower clamp, and
  \<^verbatim>\<open>set_filter_coefficient(-1)\<close> raises \<^verbatim>\<open>ValueError\<close>, writes nothing and leaves the filter
  field of the sample device at 7.
\<close>

theorem set_filter_coefficient_negative_counterexample:
  "fst (set_filter_coefficient h0 (- 1)) = Inl (ValueError ''bytes value out of range'')
   \<and> regs (i2c (snd (set_filter_coefficient h0 (- 1)))) 5 = [7]
   \<and> bus_writes (i2c (snd (set_filter_coefficient h0 (- 1)))) = []"
  by (simp add: set_filter_coefficient_neg h0_def dev0_def bus_writes_def)

section \<open>Temperature decoding\<close>

text \<open>The sign adjustment of the driver (subtract 65536 when bit 15 is set) computes the
  two's-complement value of the big-endian word.\<close>

lemma word16_range:
  fixes hi lo :: byte
  shows "0 \<le> push_bit 8 (uint hi) OR uint lo" "push_bit 8 (uint hi) OR uint lo < 2 ^ 16"
proof -
  have h: "uint hi < 2 ^ 8" and l: "uint lo < 2 ^ 8"
    using uint_bounded[of hi] uint_bounded[of lo] by simp_all
  have p: "push_bit 8 (uint hi) < 2 ^ 16" using h by (simp add: push_bit_eq_mult)
  have l': "uint lo < 2 ^ 16" using l by simp
  show "0 \<le> push_bit 8 (uint hi) OR uint lo" by simp
  show "push_bit 8 (uint hi) OR uint lo < 2 ^ 16"
    using p l' by (intro OR_upper) simp_all
qed

lemma uint_word_cat_bytes:
  fixes hi lo :: byte
  shows "uint (word_cat hi lo :: 16 word) = push_bit 8 (uint hi) OR uint lo"
proof -
  have l: "take_bit 8 (uint lo) = uint lo"
    using uint_bounded[of lo] by (simp add: take_bit_int_eq_self)
  have "uint (word_cat hi lo :: 16 word) = take_bit 16 (concat_bit 8 (uint lo) (uint hi))"
    by (simp add: word_cat_eq' uint_word_of_int_eq)
  also have "\<dots> = take_bit 16 (push_bit 8 (uint hi) OR uint lo)"
    by (simp add: concat_bit_def l or.commute)
  also have "\<dots> = push_bit 8 (uint hi) OR uint lo"
    by (rule take_bit_int_eq_self) (rule word16_range)+
  finally show ?thesis .
qed

lemma twos_complement_16:
  fixes hi lo :: byte
  shows "(let val = push_bit 8 (uint hi) OR uint lo
          in if val AND 0x8000 \<noteq> 0 then val - 65536 else val) = s16 hi lo"
proof -
  define v where "v = push_bit 8 (uint hi) OR uint lo"
  have r: "0 \<le> v" "v < 2 ^ 16" using word16_range[of hi lo] by (simp_all add: v_def)
  have b: "(v AND 0x8000 \<noteq> 0) = bit v 15"
    using and_exp_eq_0_iff_not_bit[of v 15] by simp
  have "s16 hi lo = signed_take_bit 15 v"
    by (simp add: s16_def sint_uint uint_word_cat_bytes v_def)
  also have "\<dots> = take_bit 16 v - 2 ^ 16 * of_bool (bit v 15)"
    by (simp add: signed_take_bit_eq_take_bit_minus)
  also have "\<dots> = (if v AND 0x8000 \<noteq> 0 then v - 65536 else v)"
    using r by (simp add: take_bit_int_eq_self b)
  finally show ?thesis by (simp add: v_def Let_def)
qed

lemma temp_at_eq:
  "temp_at data adc_lsb cold_lsb i =
     of_int (s16 (data ! i) (data ! (i + 1))) * (if i = 4 then cold_lsb else adc_lsb)"
  using twos_complement_16[of "data ! i" "data ! (i + 1)"]
  by (simp add: temp_at_def Let_def)

lemma adc_lsb_eq:
  "(case map_of [(12, 1), (14, 1 / 4), (16, 1 / 16), (18, 1 / 16)] a of
      Some l \<Rightarrow> l | None \<Rightarrow> 1 / 16) = adc_step a"
  by (simp add: adc_step_def)

lemma read_temperatures_eq:
  "read_temperatures h =
     (let bus = i2c_writeto (i2c h) (address h) [0];
          data = fst (i2c_readfrom bus (address h) 6)
      in (Inr \<lparr>T_H = of_int (s16 (data ! 0) (data ! 1)) * adc_step (adc_resolution h),
               T_delta = of_int (s16 (data ! 2) (data ! 3)) * adc_step (adc_resolution h),
               T_C = of_int (s16 (data ! 4) (data ! 5)) * cold_junction_res h\<rparr>,
          h\<lparr>i2c := snd (i2c_readfrom bus (address h) 6)\<rparr>))"
  by (simp add: read_temperatures_def write_pointer_def writeto_bytes_def bytes_def REG_defs
      read_bytes_def Let_def split_beta temp_at_eq adc_lsb_eq del: map_of.simps)

lemma s16_samples: "s16 0x01 0x40 = 320" "s16 0xFF 0x38 = - 200"
  using twos_complement_16[of "0x01" "0x40"] twos_complement_16[of "0xFF" "0x38"]
  by (simp_all add: Let_def)

lemma sample_hot_bytes:
  "regs bus 0 = [a, b] \<Longrightarrow>
   fst (i2c_readfrom (i2c_writeto bus addr [0]) addr 6) ! 0 = a
   \<and> fst (i2c_readfrom (i2c_writeto bus addr [0]) addr 6) ! 1 = b"
  by (simp add: i2c_readfrom_def i2c_writeto_def upt_rec[of 0])

text \<open>
  Claim C2. \<^verbatim>\<open>read_temperatures\<close> selects register 0x00, reads six bytes and returns, for each
  of the three register pairs, its big-endian two's-complement value times a step: the
  step of the ADC resolution for the hot junction and the delta (1.0 at 12 bits, 0.25 at
  14 bits, 0.0625 at 16 and 18 bits), and the cached cold-junction resolution, whatever the
  ADC resolution, for the cold junction. At 18 bits the word 0x0140 decodes to 20.0 and
  the word 0xFF38 to -12.5, also when read from the sample devices.
\<close>

theorem read_temperatures_decode:
  "(let data = fst (i2c_readfrom (i2c_writeto (i2c h) (address h) [0]) (address h) 6)
    in fst (read_temperatures h) =
         Inr \<lparr>T_H = of_int (s16 (data ! 0) (data ! 1)) * adc_step (adc_resolution h),
              T_delta = of_int (s16 (data ! 2) (data ! 3)) * adc_step (adc_resolution h),
              T_C = of_int (s16 (data ! 4) (data ! 5)) * cold_junction_res h\<rparr>)
   \<and> adc_step 12 = 1 \<and> adc_step 14 = 1 / 4 \<and> adc_step 16 = 1 / 16 \<and> adc_step 18 = 1 / 16
   \<and> of_int (s16 0x01 0x40) * adc_step 18 = 20
   \<and> of_int (s16 0xFF 0x38) * adc_step 18 = - (25 / 2)
   \<and> (\<exists>r. fst (read_temperatures h0) = Inr r \<and> T_H r = 20)
   \<and> (\<exists>r. fst (read_temperatures h_neg) = Inr r \<and> T_H r = - (25 / 2))"
proof -
  have g: "let data = fst (i2c_readfrom (i2c_writeto (i2c h) (address h) [0]) (address h) 6)
    in fst (read_temperatures h) =
         Inr \<lparr>T_H = of_int (s16 (data ! 0) (data ! 1)) * adc_step (adc_resolution h),
              T_delta = of_int (s16 (data ! 2) (data ! 3)) * adc_step (adc_resolution h),
              T_C = of_int (s16 (data ! 4) (data ! 5)) * cold_junction_res h\<rparr>"
    by (simp add: read_temperatures_eq Let_def)
  have t: "adc_step 12 = 1" "adc_step 14 = 1 / 4" "adc_step 16 = 1 / 16" "adc_step 18 = 1 / 16"
    by (simp_all add: adc_step_def)
  have d: "of_int (s16 0x01 0x40) * adc_step 18 = 20"
      "of_int (s16 0xFF 0x38) * adc_step 18 = - (25 / 2)"
    by (simp_all add: s16_samples t)
  have r0: "regs (i2c h0) 0 = [0x01, 0x40]" "adc_resolution h0 = 18"
    by (simp_all add: h0_def dev0_def)
  have rn: "regs (i2c h_neg) 0 = [0xFF, 0x38]" "adc_resolution h_neg = 18"
    by (simp_all add: h_neg_def h0_def dev0_def)
  have e0: "\<exists>r. fst (read_temperatures h0) = Inr r \<and> T_H r = 20"
    using sample_hot_bytes[OF r0(1), of "address h0"] d(1)
    by (simp add: read_temperatures_eq Let_def r0(2))
  have en: "\<exists>r. fst (read_temperatures h_neg) = Inr r \<and> T_H r = - (25 / 2)"
    using sample_hot_bytes[OF rn(1), of "address h_neg"] d(2)
    by (simp add: read_temperatures_eq Let_def rn(2))
  show ?thesis using g t d e0 en by blast
qed

section \<open>Alert configuration\<close>

text \<open>
  Claim C6. For every channel number outside 1..4 the assertion at the head of
  \<^verbatim>\<open>set_alert\<close> fails (the driver's form of an invalid-argument error) before anything is
  sent: the call returns the error with the handle, the bus log and every device register
  as they were.
\<close>

theorem set_alert_rejects_channel:
  "\<not> (1 \<le> alert_num \<and> alert_num \<le> 4) \<Longrightarrow>
   set_alert h alert_num enable limit hyst monitor rising active_low mode clear_interrupt
     = (Inl AssertionError, h)
   \<and> bus_writes (i2c (snd (set_alert h alert_num enable limit hyst monitor rising active_low
                             mode clear_interrupt))) = bus_writes (i2c h)
   \<and> regs (i2c (snd (set_alert h alert_num enable limit hyst monitor rising active_low
                        mode clear_interrupt))) = regs (i2c h)"
  by (simp add: set_alert_def)

theorem set_alert_rejects_channel_witness:
  "\<not> (1 \<le> (5::int) \<and> (5::int) \<le> 4)
   \<and> set_alert h0 5 True 150 10 ''TH'' True False ''comparator'' False
       = (Inl AssertionError, h0)"
  using set_alert_rejects_channel
          [of 5 h0 True 150 10 "''TH''" True False "''comparator''" False]
  by simp

subsection \<open>Limit encoding and decoding\<close>

text \<open>The bytes \<^verbatim>\<open>(limit_val >> 8) & 0xFF\<close> and \<^verbatim>\<open>limit_val & 0xFF\<close> of a 16-bit value put
  together again give the value.\<close>

lemma and_255: "(x::int) AND 0xFF = take_bit 8 x"
proof -
  have "mask 8 = (255::int)" by (simp add: mask_eq_exp_minus_1)
  then show ?thesis by (simp add: take_bit_eq_mask)
qed

lemma word16_recompose:
  assumes "0 \<le> v" "v < 65536"
  shows "push_bit 8 (uint (word_of_int (drop_bit 8 v AND 0xFF) :: byte))
           OR uint (word_of_int (v AND 0xFF) :: byte) = v"
proof -
  have "push_bit 8 (take_bit 8 (drop_bit 8 v)) OR take_bit 8 v = take_bit 16 v"
    by (rule bit_eqI) (auto simp add: bit_simps)
  moreover have "take_bit 16 v = v" using assms by (simp add: take_bit_int_eq_self)
  ultimately show ?thesis by (simp add: and_255 uint_word_of_int_eq)
qed

text \<open>For a limit of \<open>k\<close> sixteenths of a degree, the limit word is \<open>k\<close> itself when the
  limit is not negative, and \<open>k\<close> with bit 15 set when the limit is \<open>-k/16\<close>.\<close>

lemma limit_val_nonneg: "0 \<le> k \<Longrightarrow> limit_val_of (of_int k / 16) = k"
  by (simp add: limit_val_of_def py_int_def Let_def)

lemma limit_val_neg: "0 < k \<Longrightarrow> limit_val_of (- (of_int k / 16)) = k OR 0x8000"
  by (simp add: limit_val_of_def py_int_def Let_def)

text \<open>Limits from 0 up to 2047.9375 degrees are recovered by the decoder of
  \<^verbatim>\<open>read_all_alerts\<close>.\<close>

lemma limit_roundtrip_nonneg:
  assumes "0 \<le> k" "k < 32768"
  shows "limit_at [word_of_int (drop_bit 8 (limit_val_of (of_int k / 16)) AND 0xFF),
                   word_of_int (limit_val_of (of_int k / 16) AND 0xFF)] 0 = of_int k / 16"
proof -
  have "\<not> bit k 15" using assms by (simp add: bit_iff_odd)
  then have "k AND 0x8000 = 0" using and_exp_eq_0_iff_not_bit[of k 15] by simp
  then show ?thesis using assms word16_recompose[of k]
    by (simp add: limit_at_def limit_val_nonneg Let_def)
qed

text \<open>A negative limit \<open>-k/16\<close> is not: its word, magnitude with bit 15 set, is read back as
  the two's-complement value \<open>k - 32768\<close>, that is as \<open>-2048 + k/16\<close> degrees.\<close>

lemma limit_decode_negative:
  assumes "0 < k" "k < 32768"
  shows "limit_at [word_of_int (drop_bit 8 (limit_val_of (- (of_int k / 16))) AND 0xFF),
                   word_of_int (limit_val_of (- (of_int k / 16)) AND 0xFF)] 0
           = (of_int k - 32768) / 16"
proof -
  have nb: "\<not> bit k 15" using assms by (simp add: bit_iff_odd)
  then have z: "k AND 0x8000 = 0" using and_exp_eq_0_iff_not_bit[of k 15] by simp
  then have s: "k OR 0x8000 = k + 32768"
    by (metis disjunctive_add_eq_or)
  have "(k OR 0x8000) AND 0x8000 = 0x8000" by (simp add: bit.conj_disj_distrib2 z)
  then have nz: "(k + 32768) AND 0x8000 \<noteq> 0" by (simp add: s)
  show ?thesis using assms word16_recompose[of "k + 32768"] nz
    by (simp add: limit_at_def limit_val_neg Let_def s field_simps)
qed

lemma limit_val_sample: "limit_val_of (- (75 / 2)) = 0x8258"
  by (simp add: limit_val_of_def py_int_def Let_def)

lemma set_alert_sample:
  "set_alert h0 1 True (- (75 / 2)) 10 ''TH'' True False ''comparator'' False
     = (Inr (), h0\<lparr>i2c := i2c_writeto (i2c_writeto (i2c_writeto dev0 0x67 [0x10, 0x82, 0x58])
          0x67 [0x0C, 10]) 0x67 [0x08, 5]\<rparr>)"
  by (simp add: set_alert_def limit_val_sample Let_def writeto_bytes_def bytes_def REG_defs
       alert_config_of_def h0_def)

lemma limit_at_sample: "limit_at (0x82 # 0x58 # rest) 0 = - (4021 / 2)"
  by (simp add: limit_at_def Let_def)

lemma read_limits_sample:
  "\<exists>rest. fst (i2c_readfrom (i2c_writeto (snd (i2c_readfrom (i2c_writeto
      (i2c_writeto (i2c_writeto (i2c_writeto dev0 0x67 [0x10, 0x82, 0x58])
          0x67 [0x0C, 10]) 0x67 [0x08, 5]) 0x67 [8]) 0x67 4)) 0x67 [0x10]) 0x67 8) = 0x82 # 0x58 # rest"
  by (simp add: i2c_readfrom_def i2c_writeto_def dev0_def upt_rec[of 16])

text \<open>
  Claim C1, evaluated on the code. \<^verbatim>\<open>set_alert\<close> with the limit -37.5 on channel 1 sends the
  word 0x8258 (magnitude 600, bit 15 as sign flag). \<^verbatim>\<open>read_all_alerts\<close> on the device that
  received it decodes the word as two's complement, \<open>(0x8258 - 65536) * 0.0625 = -2010.5\<close>,
  where the claim has -37.5 recovered.
\<close>

theorem limit_roundtrip_negative_bug:
  "limit_val_of (- (75 / 2)) = 0x8258
   \<and> (\<exists>r h'. read_all_alerts
                (snd (set_alert h0 1 True (- (75 / 2)) 10 ''TH'' True False ''comparator''
                        False)) = (Inr r, h')
          \<and> limits r ! 0 = - (4021 / 2))"
proof -
  obtain rest where "fst (i2c_readfrom (i2c_writeto (snd (i2c_readfrom (i2c_writeto
      (i2c_writeto (i2c_writeto (i2c_writeto dev0 0x67 [0x10, 0x82, 0x58])
          0x67 [0x0C, 10]) 0x67 [0x08, 5]) 0x67 [8]) 0x67 4)) 0x67 [0x10]) 0x67 8) = 0x82 # 0x58 # rest"
    using read_limits_sample by blast
  then show ?thesis
  by (simp add: limit_val_sample set_alert_sample read_all_alerts_def write_pointer_def
      writeto_bytes_def bytes_def REG_defs read_bytes_def Let_def split_beta limit_at_sample h0_fields)
qed

section \<open>Alert status\<close>

text \<open>The dictionary keys \<^verbatim>\<open>str(alert_num)\<close> of the four channels are distinct.\<close>

lemma str_int_digits:
  "str_int 1 = ''1''" "str_int 2 = ''2''" "str_int 3 = ''3''" "str_int 4 = ''4''"
  "str_int 5 = ''5''"
  by code_simp+

lemma channel_cases: "1 \<le> a \<Longrightarrow> a \<le> 4 \<Longrightarrow> a \<in> {1, 2, 3, (4::int)}"
  by auto

lemma str_int_inj_channels:
  assumes "1 \<le> a" "a \<le> 4" "1 \<le> b" "b \<le> 4" "str_int a = str_int b"
  shows "a = b"
  using channel_cases[OF assms(1,2)] channel_cases[OF assms(3,4)] assms(5)
  by (auto simp add: str_int_digits)

text \<open>On channel numbers that are all in 1..4 the loop ends with one entry per requested
  channel, and no other entry is touched.\<close>

lemma alerts_loop_ok:
  "list_all (\<lambda>a. 1 \<le> a \<and> a \<le> 4) xs \<Longrightarrow>
   \<exists>m'. alerts_loop status xs m = Inr m'
      \<and> dom m' = dom m \<union> str_int ` set xs
      \<and> (\<forall>a\<in>set xs. m' (str_int a) = Some (status_bit status (nat (a - 1))))
      \<and> (\<forall>k. k \<notin> str_int ` set xs \<longrightarrow> m' k = m k)"
proof (induction xs arbitrary: m)
  case Nil
  then show ?case by simp
next
  case (Cons x xs)
  let ?m1 = "m(str_int x \<mapsto> status_bit status (nat (x - 1)))"
  from Cons.prems have x: "1 \<le> x" "x \<le> 4" and xs: "list_all (\<lambda>a. 1 \<le> a \<and> a \<le> 4) xs"
    by simp_all
  from Cons.IH[OF xs, of ?m1] obtain m' where
    r: "alerts_loop status xs ?m1 = Inr m'"
    and d: "dom m' = dom ?m1 \<union> str_int ` set xs"
    and v: "\<forall>a\<in>set xs. m' (str_int a) = Some (status_bit status (nat (a - 1)))"
    and k: "\<forall>k. k \<notin> str_int ` set xs \<longrightarrow> m' k = ?m1 k"
    by blast
  have "alerts_loop status (x # xs) m = Inr m'" using x r by simp
  moreover have "dom m' = dom m \<union> str_int ` set (x # xs)" using d by auto
  moreover have "m' (str_int x) = Some (status_bit status (nat (x - 1)))"
  proof (cases "str_int x \<in> str_int ` set xs")
    case True
    then obtain a where a: "a \<in> set xs" "str_int a = str_int x" by auto
    then have "1 \<le> a" "a \<le> 4" using xs by (auto simp add: list_all_iff)
    then have "a = x" using str_int_inj_channels a(2) x by blast
    then show ?thesis using v a(1) by blast
  next
    case False
    then show ?thesis using k by simp
  qed
  moreover have "\<forall>k. k \<notin> str_int ` set (x # xs) \<longrightarrow> m' k = m k" using k by auto
  ultimately show ?case using v by auto
qed

text \<open>The loop stops at the first channel number outside 1..4.\<close>

lemma alerts_loop_bad:
  "list_all (\<lambda>a. 1 \<le> a \<and> a \<le> 4) pre \<Longrightarrow> \<not> (1 \<le> b \<and> b \<le> 4) \<Longrightarrow>
   alerts_loop status (pre @ b # rest) m
     = Inl (ValueError (''Alert number must be 1-4, got '' @ str_int b))"
  by (induction pre arbitrary: m) auto

lemma get_alerts_int:
  "get_alerts h (SelInt a) =
     (Inl (TypeError ''int object is not iterable''),
      h\<lparr>i2c := snd (i2c_readfrom (i2c_writeto (i2c h) (address h) [4]) (address h) 1)\<rparr>)"
  by (simp add: get_alerts_def write_pointer_def writeto_bytes_def bytes_def REG_defs
      read_bytes_def Let_def split_beta)

lemma get_alerts_list:
  "get_alerts h (SelList xs) =
     (alerts_loop (uint (fst (i2c_readfrom (i2c_writeto (i2c h) (address h) [4]) (address h) 1) ! 0))
        xs Map.empty,
      h\<lparr>i2c := snd (i2c_readfrom (i2c_writeto (i2c h) (address h) [4]) (address h) 1)\<rparr>)"
  by (simp add: get_alerts_def write_pointer_def writeto_bytes_def bytes_def REG_defs
      read_bytes_def Let_def split_beta)

lemma get_alerts_none:
  "get_alerts h SelNone = get_alerts h (SelList [1, 2, 3, 4])"
  by (simp add: get_alerts_def split: prod.splits sum.splits)

lemma status_bit_uint: "status_bit (uint (b::byte)) i = bit b i"
  by (auto simp add: status_bit_def and_exp_eq_0_iff_not_bit bit_uint_iff
        dest: bit_imp_le_length)

lemma get_alerts_list_ok:
  assumes "list_all (\<lambda>a. 1 \<le> a \<and> a \<le> 4) xs"
  shows "\<exists>m. fst (get_alerts h (SelList xs)) = Inr m
     \<and> dom m = str_int ` set xs
     \<and> (\<forall>a\<in>set xs. m (str_int a) =
           Some (bit (fst (i2c_readfrom (i2c_writeto (i2c h) (address h) [4]) (address h) 1) ! 0)
                   (nat (a - 1))))
     \<and> bus_log (i2c (snd (get_alerts h (SelList xs))))
         = bus_log (i2c h) @ [Writeto (address h) [4], Readfrom (address h) 1]"
  using alerts_loop_ok[OF assms, of "uint (fst (i2c_readfrom (i2c_writeto (i2c h) (address h) [4]) (address h) 1) ! 0)" Map.empty]
  by (auto simp add: get_alerts_list status_bit_uint)

text \<open>
  Claim C4, evaluated on the code. For a single channel number the source rebinds
  \<^verbatim>\<open>alerts = (alerts)\<close>, which is still the integer, and the loop over it raises
  \<^verbatim>\<open>TypeError\<close> after the status register has been read: \<^verbatim>\<open>get_alerts(2)\<close> returns no
  mapping, where the docstring and the claim promise the entry of channel 2. (For no
  selector and for a list of channels in 1..4 the mapping is as claimed, with the keys
  \<^verbatim>\<open>str(alert_num)\<close>, from one status read: \<open>get_alerts_none\<close>, \<open>get_alerts_list_ok\<close>.)
\<close>

theorem get_alerts_single_channel_raises:
  "fst (get_alerts h (SelInt a)) = Inl (TypeError ''int object is not iterable'')
   \<and> fst (get_alerts h0 (SelInt 2)) = Inl (TypeError ''int object is not iterable'')"
  by (simp add: get_alerts_int)

text \<open>
  Claim C9, as the code has it. For a list selector whose first channel number outside
  1..4 is \<open>b\<close>, \<^verbatim>\<open>get_alerts\<close> raises \<^verbatim>\<open>ValueError\<close> with a message that names \<open>b\<close>. Before the
  failure the bus has carried the selection of the status register (a one-byte write of
  0x04) and the one-byte status read, in this order and nothing else; no device register
  is modified.
\<close>

theorem get_alerts_rejects_list:
  "list_all (\<lambda>a. 1 \<le> a \<and> a \<le> 4) pre \<Longrightarrow> \<not> (1 \<le> b \<and> b \<le> 4) \<Longrightarrow>
   fst (get_alerts h (SelList (pre @ b # rest)))
     = Inl (ValueError (''Alert number must be 1-4, got '' @ str_int b))
   \<and> bus_log (i2c (snd (get_alerts h (SelList (pre @ b # rest)))))
       = bus_log (i2c h) @ [Writeto (address h) [4], Readfrom (address h) 1]
   \<and> regs (i2c (snd (get_alerts h (SelList (pre @ b # rest))))) = regs (i2c h)"
  by (simp add: get_alerts_list alerts_loop_bad)

theorem get_alerts_rejects_list_witness:
  "list_all (\<lambda>a. 1 \<le> a \<and> a \<le> 4) [2::int] \<and> \<not> (1 \<le> (5::int) \<and> (5::int) \<le> 4)
   \<and> fst (get_alerts h0 (SelList [2, 5, 7])) = Inl (ValueError ''Alert number must be 1-4, got 5'')
   \<and> bus_log (i2c (snd (get_alerts h0 (SelList [2, 5, 7]))))
       = [Writeto 0x67 [4], Readfrom 0x67 1]"
  using get_alerts_rejects_list[of "[2]" 5 h0 "[7]"]
  by (simp add: str_int_digits h0_fields dev0_def)

text \<open>
  The claim as stated fails: \<^verbatim>\<open>get_alerts([5])\<close> on the sample handle raises the error only
  after a bus write, the pointer selection \<open>[0x04]\<close>, has been sent; and for the single
  number 5 the error is the \<^verbatim>\<open>TypeError\<close> of the loop, which names no value.
\<close>

theorem get_alerts_rejects_counterexample:
  "fst (get_alerts h0 (SelList [5])) = Inl (ValueError ''Alert number must be 1-4, got 5'')
   \<and> bus_writes (i2c h0) = []
   \<and> bus_writes (i2c (snd (get_alerts h0 (SelList [5])))) = [Writeto 0x67 [4]]
   \<and> fst (get_alerts h0 (SelInt 5)) = Inl (TypeError ''int object is not iterable'')"
  using alerts_loop_bad[of "[]" 5 _ "[]" Map.empty]
  by (simp add: get_alerts_list get_alerts_int bus_writes_def h0_fields dev0_def str_int_digits)

section \<open>The cached resolution fields\<close>

text \<open>A construction that completes has ended with the call \<^verbatim>\<open>set_resolution()\<close>.\<close>

lemma init_completes:
  assumes "fst (init bus addr tctype tcfilter cold_res adc_res) = Inr ()"
  shows "\<exists>h. init bus addr tctype tcfilter cold_res adc_res = set_resolution h 18 (1 / 16)"
  using assms
  by (auto simp add: init_def Let_def split: prod.splits sum.splits)

text \<open>No method other than \<^verbatim>\<open>set_resolution\<close> assigns the two cached fields.\<close>

lemma writeto_bytes_frame: "same_resolution h (snd (writeto_bytes h xs))"
  by (simp add: writeto_bytes_def same_resolution_def split: sum.splits)

lemma read_bytes_frame: "same_resolution h (snd (read_bytes h n))"
  by (simp add: read_bytes_def same_resolution_def split_beta)

lemma same_resolution_trans:
  "same_resolution h h1 \<Longrightarrow> same_resolution h1 h2 \<Longrightarrow> same_resolution h h2"
  by (simp add: same_resolution_def)

lemma frames:
  "same_resolution h (snd (get_device_id_and_revision h))"
  "same_resolution h (snd (set_thermocouple_type h type_char))"
  "same_resolution h (snd (set_filter_coefficient h n))"
  "same_resolution h (snd (read_temperatures h))"
  "same_resolution h (snd (set_power_mode h mode))"
  "same_resolution h (snd (read_all_alerts h))"
  "same_resolution h
     (snd (set_alert h alert_num enable limit hyst monitor rising active_low amode clear_interrupt))"
  "same_resolution h (snd (get_status h))"
  "same_resolution h (snd (get_alerts h sel))"
  by (simp_all add: same_resolution_def get_device_id_and_revision_def set_thermocouple_type_def
     set_filter_coefficient_def read_temperatures_def set_power_mode_def read_all_alerts_def
     set_alert_def get_status_def get_alerts_def write_pointer_def writeto_bytes_def read_bytes_def
     Let_def split_beta split: sum.splits option.splits selector.splits)

lemma get_device_id_and_revision_ok: "fst (get_device_id_and_revision h) \<noteq> Inl e"
  by (simp add: get_device_id_and_revision_def write_pointer_def writeto_bytes_def bytes_def
        REG_defs read_bytes_def split_beta)

lemma init_sample_completes: "fst (init dev0 0x67 ''k'' 9 (1 / 4) 12) = Inr ()"
proof -
  have "upper ''k'' = ''K''" by code_simp
  then have t: "THERMOCOUPLE_TYPES (upper ''k'') = Some 0"
    by (simp add: THERMOCOUPLE_TYPES_def)
  show ?thesis
    by (simp add: init_def get_device_id_and_revision_def write_pointer_def writeto_bytes_def
          bytes_def REG_defs read_bytes_def split_beta Let_def
          set_thermocouple_type_eq[OF t] set_filter_coefficient_eq set_resolution_eq)
qed

text \<open>
  What holds of the cached fields. When construction completes, and after every call of
  \<^verbatim>\<open>set_resolution\<close> (which never fails, takes 18 for an ADC resolution outside 12, 14, 16,
  18 and 0.0625 for a cold-junction resolution outside 0.0625, 0.25), the cached fields are
  the resolutions encoded in the device-config byte just written. Every other public
  method leaves the two cached fields as they were, whether it returns or raises.
\<close>

lemma resolution_in_sync_established:
  "(fst (init bus addr tctype tcfilter cold_res adc_res) = Inr () \<longrightarrow>
      resolution_in_sync (snd (init bus addr tctype tcfilter cold_res adc_res))
      \<and> adc_resolution (snd (init bus addr tctype tcfilter cold_res adc_res)) = 18
      \<and> cold_junction_res (snd (init bus addr tctype tcfilter cold_res adc_res)) = 1 / 16)
   \<and> fst (set_resolution h a c) = Inr ()
   \<and> resolution_in_sync (snd (set_resolution h a c))
   \<and> adc_resolution (snd (set_resolution h a c)) = (if a \<in> {12, 14, 16, 18} then a else 18)
   \<and> cold_junction_res (snd (set_resolution h a c))
       = (if c \<in> {1 / 16, 1 / 4} then c else 1 / 16)
   \<and> same_resolution h (snd (get_device_id_and_revision h))
   \<and> same_resolution h (snd (set_thermocouple_type h type_char))
   \<and> same_resolution h (snd (set_filter_coefficient h n))
   \<and> same_resolution h (snd (read_temperatures h))
   \<and> same_resolution h (snd (set_power_mode h mode))
   \<and> same_resolution h (snd (read_all_alerts h))
   \<and> same_resolution h
        (snd (set_alert h alert_num enable limit hyst monitor rising active_low amode
                clear_interrupt))
   \<and> same_resolution h (snd (get_status h))
   \<and> same_resolution h (snd (get_alerts h sel))"
proof -
  have i: "fst (init bus addr tctype tcfilter cold_res adc_res) = Inr () \<longrightarrow>
      resolution_in_sync (snd (init bus addr tctype tcfilter cold_res adc_res))
      \<and> adc_resolution (snd (init bus addr tctype tcfilter cold_res adc_res)) = 18
      \<and> cold_junction_res (snd (init bus addr tctype tcfilter cold_res adc_res)) = 1 / 16"
  proof
    assume "fst (init bus addr tctype tcfilter cold_res adc_res) = Inr ()"
    then obtain h4 where
      "init bus addr tctype tcfilter cold_res adc_res = set_resolution h4 18 (1 / 16)"
      using init_completes by blast
    then show "resolution_in_sync (snd (init bus addr tctype tcfilter cold_res adc_res))
      \<and> adc_resolution (snd (init bus addr tctype tcfilter cold_res adc_res)) = 18
      \<and> cold_junction_res (snd (init bus addr tctype tcfilter cold_res adc_res)) = 1 / 16"
      using set_resolution_in_sync[of h4 18 "1 / 16"] set_resolution_cached[of h4 18 "1 / 16"]
      by simp
  qed
  have s: "fst (set_resolution h a c) = Inr ()" by (simp add: set_resolution_eq Let_def)
  show ?thesis
    using i s set_resolution_in_sync[of h a c] set_resolution_cached[of h a c]
      frames(1)[of h] frames(2)[of h type_char] frames(3)[of h n] frames(4)[of h]
      frames(5)[of h mode] frames(6)[of h]
      frames(7)[of h alert_num enable limit hyst monitor rising active_low amode clear_interrupt]
      frames(8)[of h] frames(9)[of h sel]
    by blast
qed

lemma init_sample_in_sync:
  "fst (init dev0 0x67 ''k'' 9 (1 / 4) 12) = Inr ()
   \<and> resolution_in_sync (snd (init dev0 0x67 ''k'' 9 (1 / 4) 12))
   \<and> adc_resolution (snd (init dev0 0x67 ''k'' 9 (1 / 4) 12)) = 18
   \<and> cold_junction_res (snd (init dev0 0x67 ''k'' 9 (1 / 4) 12)) = 1 / 16"
  using resolution_in_sync_established
          [where bus = dev0 and addr = "0x67" and tctype = "''k''" and tcfilter = 9
             and cold_res = "1 / 4" and adc_res = 12]
        init_sample_completes
  by blast

text \<open>
  The agreement is not kept by the other methods, though: they leave the cache alone, but
  \<^verbatim>\<open>set_power_mode\<close> writes a device-config byte of its own, built from a byte that it
  reads without selecting register 0x06. The session below follows the sample device.
\<close>

lemma init_neg_completes: "fst (init (i2c h_neg) 0x67 ''K'' 0 (1 / 16) 18) = Inr ()"
proof -
  have t: "THERMOCOUPLE_TYPES (upper ''K'') = Some 0"
    by (simp add: THERMOCOUPLE_TYPES_def upper_def upper_char_def)
  show ?thesis
    by (simp add: init_def get_device_id_and_revision_def write_pointer_def writeto_bytes_def
          bytes_def REG_defs read_bytes_def split_beta Let_def
          set_thermocouple_type_eq[OF t] set_filter_coefficient_eq set_resolution_eq)
qed

lemma h_built_in_sync: "resolution_in_sync h_built"
  using init_completes[OF init_neg_completes] set_resolution_in_sync
  by (auto simp add: h_built_def)

lemma h_built_cached: "adc_resolution h_built = 18" "cold_junction_res h_built = 1 / 16"
  using init_completes[OF init_neg_completes] set_resolution_cached
  by (auto simp add: h_built_def)

lemma h_built_address: "address h_built = 0x67"
proof -
  have t: "THERMOCOUPLE_TYPES (upper ''K'') = Some 0"
    by (simp add: THERMOCOUPLE_TYPES_def upper_def upper_char_def)
  show ?thesis
    by (simp add: h_built_def init_def get_device_id_and_revision_def write_pointer_def
          writeto_bytes_def bytes_def REG_defs read_bytes_def split_beta Let_def
          set_thermocouple_type_eq[OF t] set_filter_coefficient_eq set_resolution_eq)
qed

lemma h_built_hot: "regs (i2c h_built) 0 = [0xFF, 0x38]"
proof -
  have t: "THERMOCOUPLE_TYPES (upper ''K'') = Some 0"
    by (simp add: THERMOCOUPLE_TYPES_def upper_def upper_char_def)
  show ?thesis
    by (simp add: h_built_def init_def get_device_id_and_revision_def write_pointer_def
          writeto_bytes_def bytes_def REG_defs read_bytes_def split_beta Let_def
          set_thermocouple_type_eq[OF t] set_filter_coefficient_eq set_resolution_eq
          regs_writeto h_neg_def h0_def dev0_def)
qed

lemma h_read_eq:
  "h_read = h_built\<lparr>i2c := snd (i2c_readfrom (i2c_writeto (i2c h_built) 0x67 [0]) 0x67 6)\<rparr>"
  by (simp add: h_read_def read_temperatures_eq Let_def h_built_address)

lemma last_config_write_skip:
  "config_payload e1 = None \<Longrightarrow> config_payload e2 = None \<Longrightarrow>
   last_config_write (evs @ [e1, e2]) = last_config_write evs"
  by (simp add: last_config_write_def map_filter_def)

lemma last_config_write_last:
  "last_config_write (evs @ [e, Writeto a [6, c]]) = Some c"
  by (simp add: last_config_write_def map_filter_def)

lemma h_read_in_sync: "resolution_in_sync h_read"
  using h_built_in_sync
  by (simp add: h_read_eq resolution_in_sync_def last_config_write_skip
        split: option.splits)

lemma h_read_byte: "fst (i2c_readfrom (i2c h_read) 0x67 1) = [0xFF]"
  using h_built_hot
  by (simp add: h_read_eq i2c_readfrom_def)

lemma h_shut_eq:
  "h_shut = h_read\<lparr>i2c := i2c_writeto (snd (i2c_readfrom (i2c h_read) 0x67 1)) 0x67 [6, 0xFD]\<rparr>"
  using h_read_byte
  by (simp add: h_shut_def set_power_mode_eq Let_def h_read_eq h_built_address)

text \<open>
  Claim C8, evaluated on the code. On the device whose hot-junction register holds 0xFF38,
  construction completes and leaves the cached fields (18 bits, 0.0625) in agreement with
  the device-config byte 0x00 it wrote; \<^verbatim>\<open>read_temperatures()\<close> keeps the agreement and
  leaves the register pointer on the hot junction. \<^verbatim>\<open>set_power_mode('shutdown')\<close> then reads
  the byte 0xFF there, since it selects no register, and writes \<open>(0xFF AND 0xFC) OR 0x01 =
  0xFD\<close> to register 0x06. The byte most recently written to the device now encodes 12 bits
  and 0.25, while the cache still holds 18 bits and 0.0625: the invariant of the claim is
  broken by a public method other than \<^verbatim>\<open>set_resolution\<close>.
\<close>

theorem resolution_out_of_sync_after_power_mode:
  "fst (init (i2c h_neg) 0x67 ''K'' 0 (1 / 16) 18) = Inr ()
   \<and> resolution_in_sync h_built
   \<and> resolution_in_sync h_read
   \<and> \<not> resolution_in_sync h_shut
   \<and> last_config_write (bus_log (i2c h_shut)) = Some 0xFD
   \<and> adc_bits_of_config 0xFD = 12 \<and> cold_res_of_config 0xFD = 1 / 4
   \<and> adc_resolution h_shut = 18 \<and> cold_junction_res h_shut = 1 / 16"
proof -
  have l: "last_config_write (bus_log (i2c h_shut)) = Some 0xFD"
    by (simp add: h_shut_eq last_config_write_last)
  have d: "adc_bits_of_config 0xFD = 12" "cold_res_of_config 0xFD = 1 / 4"
    by (simp_all add: adc_bits_of_config_def cold_res_of_config_def Let_def)
  have c: "adc_resolution h_shut = 18" "cold_junction_res h_shut = 1 / 16"
    using h_built_cached by (simp_all add: h_shut_eq h_read_eq)
  have n: "\<not> resolution_in_sync h_shut"
    by (simp add: resolution_in_sync_def l d c)
  show ?thesis
    using init_neg_completes h_built_in_sync h_read_in_sync n l d c by blast
qed

end
